theory Spec2Isabelle
  imports Main "HOL-Library.Char_ord" "HOL-Library.List_Lexorder"
begin

section \<open>Text primitives of the Python runtime\<close>

text \<open>
  A Python \<open>str\<close> is modelled as a \<open>string\<close>; a \<open>char\<close> stands for one code point
  below 256. The line feed is \<open>CHR 0x0A\<close>, the carriage return \<open>CHR 0x0D\<close>.
\<close>

abbreviation LF :: char where "LF \<equiv> CHR 0x0A"
abbreviation CR :: char where "CR \<equiv> CHR 0x0D"

text \<open>\<open>str.isspace\<close> on one code point below 256: 9 to 13, 28 to 32, 133 and 160.\<close>

definition isspace :: "char \<Rightarrow> bool" where
  "isspace c =
     (let n = (of_char c :: nat)
      in (9 \<le> n \<and> n \<le> 13) \<or> (28 \<le> n \<and> n \<le> 32) \<or> n = 133 \<or> n = 160)"

text \<open>\<open>s.strip()\<close>: leading and trailing whitespace removed.\<close>

definition strip :: "string \<Rightarrow> string" where
  "strip s = rev (dropWhile isspace (rev (dropWhile isspace s)))"

text \<open>\<open>s.split(d)\<close> for a one-character separator: always at least one piece.\<close>

fun split_on :: "char \<Rightarrow> string \<Rightarrow> string list" where
  "split_on d [] = [[]]"
| "split_on d (c # cs) =
     (if c = d then [] # split_on d cs
      else (let r = split_on d cs in (c # hd r) # tl r))"

text \<open>\<open>sep.join(xs)\<close>.\<close>

fun join :: "string \<Rightarrow> string list \<Rightarrow> string" where
  "join sep [] = []"
| "join sep [x] = x"
| "join sep (x # y # ys) = x @ sep @ join sep (y # ys)"

text \<open>\<open>s.startswith(p)\<close>.\<close>

definition startswith :: "string \<Rightarrow> string \<Rightarrow> bool" where
  "startswith s p = (take (length p) s = p)"

text \<open>\<open>str(n)\<close> for a non-negative integer, and \<open>s.upper()\<close> on ASCII letters.\<close>

fun str_nat :: "nat \<Rightarrow> string" where
  "str_nat n =
     (if n < 10 then [char_of (48 + n)]
      else str_nat (n div 10) @ [char_of (48 + n mod 10)])"

declare str_nat.simps [simp del]

definition str_int :: "int \<Rightarrow> string" where
  "str_int i = (if i < 0 then ''-'' @ str_nat (nat (- i)) else str_nat (nat i))"

text \<open>A name between two apostrophes, as Python's messages quote it.\<close>

definition quoted :: "string \<Rightarrow> string" where
  "quoted s = [CHR 0x27] @ s @ [CHR 0x27]"

definition upper_char :: "char \<Rightarrow> char" where
  "upper_char c =
     (let n = (of_char c :: nat) in if 97 \<le> n \<and> n \<le> 122 then char_of (n - 32) else c)"

definition upper :: "string \<Rightarrow> string" where
  "upper s = map upper_char s"

text \<open>
  Text-mode newline translation (\<open>newline=None\<close> on reading, and the
  \<open>replace("\r\n", "\n").replace("\r", "\n")\<close> that \<open>subprocess\<close> applies to captured
  output when \<open>text=True\<close>): \<open>CR LF\<close> and a lone \<open>CR\<close> both become \<open>LF\<close>.
\<close>

fun universal_newlines :: "string \<Rightarrow> string" where
  "universal_newlines [] = []"
| "universal_newlines [c] = (if c = CR then [LF] else [c])"
| "universal_newlines (c # d # ds) =
     (if c = CR then
        (if d = LF then LF # universal_newlines ds else LF # universal_newlines (d # ds))
      else c # universal_newlines (d # ds))"

text \<open>
  \<open>for line in f\<close> over already translated text: the text is cut after every \<open>LF\<close>,
  the \<open>LF\<close> stays at the end of its line, a last line without \<open>LF\<close> is kept, and
  empty text has no line.
\<close>

fun file_lines :: "string \<Rightarrow> string list" where
  "file_lines [] = []"
| "file_lines (c # cs) =
     (if c = LF then [c] # file_lines cs
      else (case file_lines cs of [] \<Rightarrow> [[c]] | l # ls \<Rightarrow> (c # l) # ls))"

section \<open>The world the script runs in\<close>

text \<open>
  A path names nothing (\<open>Absent\<close>), a regular file with its text (\<open>File\<close>), or a node
  that exists but that \<open>open\<close> refuses with the given message (\<open>Blocked\<close>: a directory,
  a file without permission).
\<close>

datatype fs_entry = Absent | File string | Blocked string

type_synonym filesystem = "string \<Rightarrow> fs_entry"

text \<open>The exceptions (subclasses of \<open>Exception\<close>) that the script can meet.\<close>

datatype exn =
    TimeoutExpired
  | JSONDecodeError
  | ImportError string
  | OSError string
  | TypeError string
  | NameError string
  | AttributeError string
  | IndexError string
  | UnboundLocalError string
  | RequestException string

fun str_exn :: "exn \<Rightarrow> string" where
  "str_exn TimeoutExpired = ''Command timed out''"
| "str_exn JSONDecodeError = ''Expecting value''"
| "str_exn (ImportError m) = m"
| "str_exn (OSError m) = m"
| "str_exn (TypeError m) = m"
| "str_exn (NameError n) = ''name '' @ quoted n @ '' is not defined''"
| "str_exn (AttributeError m) = m"
| "str_exn (IndexError m) = m"
| "str_exn (UnboundLocalError m) = m"
| "str_exn (RequestException m) = m"

text \<open>Values decoded by \<open>json.loads\<close>; a float is kept as its \<open>repr\<close>.\<close>

datatype json =
    JNull
  | JBool bool
  | JInt int
  | JFloat string
  | JStr string
  | JList "json list"
  | JDict "(string \<times> json) list"

text \<open>
  What the script does to the outside, in order: a status line of \<open>print_status\<close> (the
  clock time and the colour codes left out), a plain \<open>print\<close>, a process started, an
  HTTP POST with its URL and JSON payload.
\<close>

datatype level = Info | Success | Warning | Error

datatype event =
    Status level string
  | Print string
  | Exec "string list"
  | Post string json

record world =
  files :: filesystem
  trace :: "event list"

text \<open>What a started process comes to, before Python decodes anything.\<close>

datatype proc_result =
    Exited int string string
  | TimedOut
  | SpawnFailed string

record completed =
  returncode :: int
  stdout :: string
  stderr :: string

text \<open>
  The collaborators outside the repository, as parameters: the external processes (which
  may write files), \<open>json.loads\<close>, \<open>str()\<close> on a decoded value, \<open>os.getenv\<close>,
  whether \<open>import requests\<close> succeeds, \<open>requests.post\<close> (the status code or the
  exception), \<open>datetime.now()\<close> formatted for file names, for the status line and for
  the elapsed seconds, whether \<open>mkdir\<close> of the output directory succeeds, and
  \<open>Path.glob\<close> (directory and pattern to the matching file names, in any order).
\<close>

record env =
  spawn :: "string list \<Rightarrow> filesystem \<Rightarrow> proc_result \<times> filesystem"
  json_loads :: "string \<Rightarrow> exn + json"
  py_str :: "json \<Rightarrow> string"
  getenv :: "string \<Rightarrow> string option"
  requests_installed :: bool
  requests_post :: "string \<Rightarrow> json \<Rightarrow> exn + int"
  now_stamp :: string
  now_text :: string
  elapsed :: string
  mkdir_error :: "string option"
  glob :: "string \<Rightarrow> string \<Rightarrow> string list"

definition print_status :: "string \<Rightarrow> level \<Rightarrow> world \<Rightarrow> world" where
  "print_status message status_type w = w\<lparr>trace := trace w @ [Status status_type message]\<rparr>"

definition print_line :: "string \<Rightarrow> world \<Rightarrow> world" where
  "print_line s w = w\<lparr>trace := trace w @ [Print s]\<rparr>"

fun print_lines :: "string list \<Rightarrow> world \<Rightarrow> world" where
  "print_lines [] w = w"
| "print_lines (s # ss) w = print_lines ss (print_line s w)"

text \<open>
  \<open>subprocess.run(cmd, capture_output=True, text=True, timeout=...)\<close>: the process is
  started and may change files; a timeout and a failure to start are exceptions; the
  captured output goes through the text-mode newline translation.
\<close>

definition subprocess_run :: "env \<Rightarrow> string list \<Rightarrow> world \<Rightarrow> (exn + completed) \<times> world" where
  "subprocess_run e cmd w =
     (let (r, fs') = spawn e cmd (files w);
          w' = w\<lparr>files := fs', trace := trace w @ [Exec cmd]\<rparr>
      in case r of
           Exited rc out err \<Rightarrow>
             (Inr \<lparr>returncode = rc, stdout = universal_newlines out,
                   stderr = universal_newlines err\<rparr>, w')
         | TimedOut \<Rightarrow> (Inl TimeoutExpired, w')
         | SpawnFailed m \<Rightarrow> (Inl (OSError m), w'))"

text \<open>\<open>os.path.exists\<close>, reading a whole text file, and \<open>open(path, 'w')\<close> with its writes.\<close>

definition path_exists :: "world \<Rightarrow> string \<Rightarrow> bool" where
  "path_exists w p = (files w p \<noteq> Absent)"

definition read_text :: "world \<Rightarrow> string \<Rightarrow> exn + string" where
  "read_text w p =
     (case files w p of
        Absent \<Rightarrow> Inl (OSError ''No such file or directory'')
      | Blocked m \<Rightarrow> Inl (OSError m)
      | File c \<Rightarrow> Inr (universal_newlines c))"

definition write_text :: "string \<Rightarrow> string \<Rightarrow> world \<Rightarrow> exn + world" where
  "write_text p c w =
     (case files w p of
        Blocked m \<Rightarrow> Inl (OSError m)
      | _ \<Rightarrow> Inr (w\<lparr>files := (files w)(p := File c)\<rparr>))"

section \<open>check_tool_installed\<close>

definition check_tool_installed :: "env \<Rightarrow> string \<Rightarrow> world \<Rightarrow> bool \<times> world" where
  "check_tool_installed e tool_name w =
     (case subprocess_run e [''which'', tool_name] w of
        (Inl ex, w1) \<Rightarrow> (False, w1)
      | (Inr result, w1) \<Rightarrow>
          if returncode result = 0 then (True, w1)
          else (case subprocess_run e [''command'', ''-v'', tool_name] w1 of
                  (Inl ex, w2) \<Rightarrow> (False, w2)
                | (Inr result2, w2) \<Rightarrow> (returncode result2 = 0, w2)))"

section \<open>run_subfinder\<close>

text \<open>Lines 86 to 87: the lines whose stripped form is not empty, unchanged.\<close>

definition nonblank :: "string list \<Rightarrow> string list" where
  "nonblank subdomains = filter (\<lambda>sub. strip sub \<noteq> []) subdomains"

text \<open>Lines 90 to 95: the loop over \<open>subdomains\<close> with \<open>unique_subdomains\<close> and \<open>seen\<close>.\<close>

fun dedup_loop :: "string list \<Rightarrow> string list \<Rightarrow> string set \<Rightarrow> string list" where
  "dedup_loop [] unique_subdomains seen = unique_subdomains"
| "dedup_loop (sub # subs) unique_subdomains seen =
     (if sub \<notin> seen then dedup_loop subs (unique_subdomains @ [sub]) (insert sub seen)
      else dedup_loop subs unique_subdomains seen)"

text \<open>Lines 84 to 95, from the captured standard output to \<open>unique_subdomains\<close>.\<close>

definition collect :: "string \<Rightarrow> string list" where
  "collect out = dedup_loop (nonblank (split_on LF (strip out))) [] {}"

text \<open>Lines 101 to 102: what the loop writes to the list file.\<close>

definition list_file_text :: "string list \<Rightarrow> string" where
  "list_file_text unique_subdomains = concat (map (\<lambda>subdomain. subdomain @ [LF]) unique_subdomains)"

text \<open>Lines 107 to 112: the first ten entries, numbered from 1, and the count of the rest.\<close>

definition numbered :: "string list \<Rightarrow> string list" where
  "numbered xs = map (\<lambda>(i, sub). ''  '' @ str_nat (Suc i) @ ''. '' @ sub) (enumerate 0 xs)"

definition show_subdomains :: "string list \<Rightarrow> world \<Rightarrow> world" where
  "show_subdomains unique_subdomains w =
     (if unique_subdomains \<noteq> [] then
        (let w1 = print_status ''Subdomains found:'' Info w;
             w2 = print_lines (numbered (take 10 unique_subdomains)) w1
         in if length unique_subdomains > 10
            then print_line (''  ... and '' @ str_nat (length unique_subdomains - 10) @ '' more'') w2
            else w2)
      else w)"

definition run_subfinder :: "env \<Rightarrow> string \<Rightarrow> string \<Rightarrow> world \<Rightarrow> string list \<times> world" where
  "run_subfinder e domain output_file w0 =
     (let w1 = print_status (''Starting subdomain enumeration for: '' @ domain) Info w0;
          cmd = [''subfinder'', ''-d'', domain, ''-silent''];
          w2 = print_status (''Running command: '' @ join '' '' cmd) Info w1
      in case subprocess_run e cmd w2 of
           (Inl ex, w3) \<Rightarrow>
             if ex = TimeoutExpired
             then ([], print_status ''Subfinder timed out after 5 minutes'' Error w3)
             else ([], print_status (''Error running subfinder: '' @ str_exn ex) Error w3)
         | (Inr result, w3) \<Rightarrow>
             if returncode result \<noteq> 0
             then ([], print_status (''Subfinder failed: '' @ stderr result) Error w3)
             else
               (let unique_subdomains = collect (stdout result);
                    w4 = print_status (''Found '' @ str_nat (length unique_subdomains)
                                        @ '' unique subdomains'') Success w3
                in case write_text output_file (list_file_text unique_subdomains) w4 of
                     Inl ex \<Rightarrow>
                       ([], print_status (''Error running subfinder: '' @ str_exn ex) Error w4)
                   | Inr w5 \<Rightarrow>
                       (let w6 = print_status (''Results saved to: '' @ output_file) Info w5
                        in (unique_subdomains, show_subdomains unique_subdomains w6))))"

section \<open>run_httpx\<close>

text \<open>
  A decoded JSON object is the list of its items, every key once. \<open>d.get(k, default)\<close>:
\<close>

definition dict_get :: "(string \<times> json) list \<Rightarrow> string \<Rightarrow> json \<Rightarrow> json" where
  "dict_get d k dflt = (case map_of d k of Some v \<Rightarrow> v | None \<Rightarrow> dflt)"

text \<open>
  \<open>v[:n]\<close>: a string and a list are cut, every other value raises (a dict raises
  \<open>TypeError\<close> up to Python 3.11 and \<open>KeyError\<close> after; both are caught alike).
\<close>

definition not_subscriptable :: "string \<Rightarrow> exn" where
  "not_subscriptable tname = TypeError (quoted tname @ '' object is not subscriptable'')"

fun slice_to :: "nat \<Rightarrow> json \<Rightarrow> exn + json" where
  "slice_to n (JStr s) = Inr (JStr (take n s))"
| "slice_to n (JList xs) = Inr (JList (take n xs))"
| "slice_to n JNull = Inl (not_subscriptable ''NoneType'')"
| "slice_to n (JBool b) = Inl (not_subscriptable ''bool'')"
| "slice_to n (JInt i) = Inl (not_subscriptable ''int'')"
| "slice_to n (JFloat r) = Inl (not_subscriptable ''float'')"
| "slice_to n (JDict d) = Inl (TypeError (''unhashable type: '' @ quoted ''slice''))"

text \<open>
  A value inside an f-string: \<open>str()\<close> of it. Containers go through the parameter
  \<open>py_str\<close> (their text is the \<open>repr\<close> of every member).
\<close>

definition fmt :: "env \<Rightarrow> json \<Rightarrow> string" where
  "fmt e v =
     (case v of
        JNull \<Rightarrow> ''None''
      | JBool b \<Rightarrow> (if b then ''True'' else ''False'')
      | JInt i \<Rightarrow> str_int i
      | JFloat r \<Rightarrow> r
      | JStr s \<Rightarrow> s
      | _ \<Rightarrow> py_str e v)"

text \<open>
  Lines 175 to 183, one line of the output file: nothing for a blank line, the decoded
  value when \<open>json.loads\<close> accepts the stripped line, the two-field record when it
  raises \<open>JSONDecodeError\<close> and the line starts with \<open>http\<close>, nothing when it raises
  \<open>JSONDecodeError\<close> otherwise; any other exception leaves the loop.
\<close>

definition read_line :: "env \<Rightarrow> string \<Rightarrow> exn + json option" where
  "read_line e l =
     (let line = strip l
      in if line \<noteq> [] then
           (case json_loads e line of
              Inr data \<Rightarrow> Inr (Some data)
            | Inl ex \<Rightarrow>
                if ex = JSONDecodeError then
                  (if startswith line ''http''
                   then Inr (Some (JDict [(''input'', JStr line), (''url'', JStr line)]))
                   else Inr None)
                else Inl ex)
         else Inr None)"

text \<open>Lines 174 to 183: the loop over the lines, appending to \<open>live_hosts\<close>.\<close>

fun read_hosts :: "env \<Rightarrow> string list \<Rightarrow> json list \<Rightarrow> exn + json list" where
  "read_hosts e [] live_hosts = Inr live_hosts"
| "read_hosts e (l # ls) live_hosts =
     (case read_line e l of
        Inl ex \<Rightarrow> Inl ex
      | Inr None \<Rightarrow> read_hosts e ls live_hosts
      | Inr (Some data) \<Rightarrow> read_hosts e ls (live_hosts @ [data]))"

text \<open>Lines 171 to 183: no output file gives no record; a file that cannot be read raises.\<close>

definition read_output :: "env \<Rightarrow> string \<Rightarrow> world \<Rightarrow> exn + json list" where
  "read_output e output_file w =
     (if path_exists w output_file then
        (case read_text w output_file of
           Inl ex \<Rightarrow> Inl ex
         | Inr text \<Rightarrow> read_hosts e (file_lines text) [])
      else Inr [])"

text \<open>
  Lines 190 to 197: the summary of the hosts from number \<open>i\<close> on; it stops at the first
  exception, which the slice of a title that is neither string nor list raises.
\<close>

fun show_hosts :: "env \<Rightarrow> nat \<Rightarrow> json list \<Rightarrow> world \<Rightarrow> exn option \<times> world" where
  "show_hosts e i [] w = (None, w)"
| "show_hosts e i (host # hosts) w =
     (case host of
        JDict d \<Rightarrow>
          (let url = dict_get d ''url'' (dict_get d ''input'' (JStr ''N/A''));
               status = dict_get d ''status_code'' (JStr ''N/A'')
           in case slice_to 50 (dict_get d ''title'' (JStr ''N/A'')) of
                Inl ex \<Rightarrow> (Some ex, w)
              | Inr title \<Rightarrow>
                  show_hosts e (Suc i) hosts
                    (print_line (''  '' @ str_nat i @ ''. '' @ fmt e url @ '' ['' @ fmt e status
                                 @ ''] - '' @ fmt e title) w))
      | _ \<Rightarrow> show_hosts e (Suc i) hosts (print_line (''  '' @ str_nat i @ ''. '' @ fmt e host) w))"

text \<open>Lines 188 to 200.\<close>

definition show_live_hosts :: "env \<Rightarrow> json list \<Rightarrow> world \<Rightarrow> exn option \<times> world" where
  "show_live_hosts e live_hosts w =
     (if live_hosts \<noteq> [] then
        (case show_hosts e 1 (take 5 live_hosts) (print_status ''Live hosts found:'' Info w) of
           (Some ex, w1) \<Rightarrow> (Some ex, w1)
         | (None, w1) \<Rightarrow>
             if length live_hosts > 5
             then (None, print_line (''  ... and '' @ str_nat (length live_hosts - 5) @ '' more'') w1)
             else (None, w1))
      else (None, w))"

text \<open>Lines 142 to 152.\<close>

definition httpx_cmd :: "string \<Rightarrow> string \<Rightarrow> string list" where
  "httpx_cmd subdomains_file output_file =
     [''httpx'', ''-l'', subdomains_file, ''-silent'', ''-status-code'', ''-content-length'',
      ''-title'', ''-tech-detect'', ''-json'', ''-o'', output_file]"

text \<open>Lines 155 to 202: the body of the \<open>try\<close>, with what it raises.\<close>

definition httpx_try :: "env \<Rightarrow> string \<Rightarrow> string \<Rightarrow> nat \<Rightarrow> world \<Rightarrow> (exn + json list) \<times> world" where
  "httpx_try e subdomains_file output_file subdomain_count w1 =
     (let cmd = httpx_cmd subdomains_file output_file;
          w2 = print_status (''Running httpx on '' @ str_nat subdomain_count @ '' subdomains'') Info w1;
          w3 = print_status (''Command: '' @ join '' '' cmd) Info w2
      in case subprocess_run e cmd w3 of
           (Inl ex, w4) \<Rightarrow> (Inl ex, w4)
         | (Inr result, w4) \<Rightarrow>
             (let w5 = (if returncode result \<noteq> 0 \<and> returncode result \<noteq> 1
                        then print_status (''Httpx failed (code '' @ str_int (returncode result)
                                            @ ''): '' @ take 200 (stderr result)) Error w4
                        else w4)
              in case read_output e output_file w5 of
                   Inl ex \<Rightarrow> (Inl ex, w5)
                 | Inr live_hosts \<Rightarrow>
                     (let w6 = print_status (''Found '' @ str_nat (length live_hosts)
                                  @ '' live hosts in '' @ elapsed e @ '' seconds'') Success w5
                      in case show_live_hosts e live_hosts w6 of
                           (Some ex, w7) \<Rightarrow> (Inl ex, w7)
                         | (None, w7) \<Rightarrow> (Inr live_hosts, w7))))"

text \<open>
  The whole function. The existence check and the count of the lines stand before the
  \<open>try\<close>: what \<open>open\<close> raises there reaches the caller (\<open>Inl\<close>).
\<close>

definition run_httpx :: "env \<Rightarrow> string \<Rightarrow> string \<Rightarrow> world \<Rightarrow> (exn + json list) \<times> world" where
  "run_httpx e subdomains_file output_file w0 =
     (let w1 = print_status (''Probing for live hosts from: '' @ subdomains_file) Info w0
      in if \<not> path_exists w1 subdomains_file
         then (Inr [], print_status (''Input file '' @ subdomains_file @ '' not found '') Error w1)
         else
           (case read_text w1 subdomains_file of
              Inl ex \<Rightarrow> (Inl ex, w1)
            | Inr text \<Rightarrow>
                (let subdomain_count = length (file_lines text)
                 in if subdomain_count = 0
                    then (Inr [], print_status ''No subdomains to probe'' Warning w1)
                    else
                      (case httpx_try e subdomains_file output_file subdomain_count w1 of
                         (Inl ex, w2) \<Rightarrow>
                           if ex = TimeoutExpired
                           then (Inr [], print_status ''Httpx timed out after 10 minutes'' Error w2)
                           else (Inr [], print_status (''Error running httpx: '' @ str_exn ex) Error w2)
                       | (Inr live_hosts, w2) \<Rightarrow> (Inr live_hosts, w2)))))"

section \<open>send_notification\<close>

text \<open>The bullet of the message template (U+2022) is written as its three UTF-8 bytes.\<close>

definition bullet :: string where
  "bullet = [CHR 0xE2, CHR 0x80, CHR 0xA2]"

text \<open>Lines 218 to 224.\<close>

definition notification_message :: "env \<Rightarrow> string \<Rightarrow> nat \<Rightarrow> nat \<Rightarrow> string" where
  "notification_message e domain total_subdomains live_hosts =
     [LF] @ ''Subdomain Scan Complete!'' @ [LF]
     @ bullet @ '' Target: '' @ domain @ [LF]
     @ bullet @ '' Subdomains Found: '' @ str_nat total_subdomains @ [LF]
     @ bullet @ '' Live Hosts: '' @ str_nat live_hosts @ [LF]
     @ bullet @ '' Time: '' @ now_text e @ [LF]"

text \<open>
  Line 237 reads the name \<open>telegram_token\<close>. No parameter, local variable, module-level
  name or builtin has this name (line 236 binds \<open>bot_token\<close>), so reading it raises
  \<open>NameError\<close>.
\<close>

definition telegram_token :: "exn + string" where
  "telegram_token = Inl (NameError ''telegram_token'')"

text \<open>\<open>import requests\<close> and \<open>requests.post(url, json=payload, timeout=10)\<close>.\<close>

definition import_requests :: "env \<Rightarrow> exn option" where
  "import_requests e =
     (if requests_installed e then None
      else Some (ImportError (''No module named '' @ quoted ''requests'')))"

definition http_post :: "env \<Rightarrow> string \<Rightarrow> json \<Rightarrow> world \<Rightarrow> (exn + int) \<times> world" where
  "http_post e url payload w = (requests_post e url payload, w\<lparr>trace := trace w @ [Post url payload]\<rparr>)"

text \<open>Lines 227 to 259: the three branches, up to the status code of the response.\<close>

definition send_try :: "env \<Rightarrow> string \<Rightarrow> string \<Rightarrow> string \<Rightarrow> world \<Rightarrow> (exn + int) \<times> world" where
  "send_try e message webhook_url platform w =
     (if platform = ''telegram'' then
        (case import_requests e of
           Some ex \<Rightarrow> (Inl ex, w)
         | None \<Rightarrow>
             (let parts = split_on CHR ''/'' webhook_url;
                  payload = JDict [(''chat_id'', JStr (last parts)),
                                   (''text'', JStr message),
                                   (''parse_mode'', JStr ''HTML'')]
              in if length parts < 2 then (Inl (IndexError ''list index out of range''), w)
                 else
                   (let bot_token = parts ! (length parts - 2)
                    in case telegram_token of
                         Inl ex \<Rightarrow> (Inl ex, w)
                       | Inr tok \<Rightarrow>
                           http_post e (''https://api.telegram.org/bot'' @ tok @ ''/sendMessage'')
                             payload w)))
      else if platform = ''discord'' then
        (case import_requests e of
           Some ex \<Rightarrow> (Inl ex, w)
         | None \<Rightarrow>
             http_post e webhook_url
               (JDict [(''content'', JStr message), (''username'', JStr ''Subdomain Scanner'')]) w)
      else if platform = ''slack'' then
        (case import_requests e of
           Some ex \<Rightarrow> (Inl ex, w)
         | None \<Rightarrow>
             http_post e webhook_url
               (JDict [(''text'', JStr message), (''username'', JStr ''Subdomain Scanner''),
                       (''icon_emoji'', JStr '':mag:'')]) w)
      else (Inl (UnboundLocalError (''cannot access local variable '' @ quoted ''response''
                   @ '' where it is not associated with a value'')), w))"

text \<open>
  The function, called with all five arguments as \<open>main\<close> calls it. (The defaults of
  the last two parameters in line 213, \<open>platform_webhook\<close> and \<open>platform\<close>, are names
  bound nowhere in the module.)
\<close>

definition send_notification ::
    "env \<Rightarrow> string \<Rightarrow> nat \<Rightarrow> nat \<Rightarrow> string \<Rightarrow> string \<Rightarrow> world \<Rightarrow> bool \<times> world" where
  "send_notification e domain total_subdomains live_hosts webhook_url platform w =
     (if webhook_url = [] then (False, w)
      else
        (let message = notification_message e domain total_subdomains live_hosts
         in case send_try e message webhook_url platform w of
              (Inr status_code, w1) \<Rightarrow>
                if status_code = 200
                then (True, print_status ''Notification sent successfully'' Success w1)
                else (False, print_status (''Failed to send notification: '' @ str_int status_code)
                               Warning w1)
            | (Inl ex, w1) \<Rightarrow>
                (case ex of
                   ImportError m \<Rightarrow>
                     (False, print_status
                        ''Requests library required for notifications. Install with: pip install requests''
                        Warning w1)
                 | _ \<Rightarrow> (False, print_status (''Notification error: '' @ str_exn ex) Warning w1))))"

section \<open>main\<close>

text \<open>
  The parsed command line. \<open>output_dir\<close> is the directory as \<open>Path\<close> prints it;
  \<open>webhook\<close> is \<open>None\<close> when the option is not given.
\<close>

record args =
  domain :: string
  output_dir :: string
  notify :: string
  webhook :: "string option"
  skip_subfinder :: bool
  skip_httpx :: bool

text \<open>How \<open>main\<close> ends: it returns, it calls \<open>sys.exit\<close>, or an exception leaves it.\<close>

datatype outcome = Returned | SysExit int | Raised exn

definition path_join :: "string \<Rightarrow> string \<Rightarrow> string" where
  "path_join dir name = dir @ ''/'' @ name"

text \<open>Lines 325 to 329.\<close>

definition banner :: "args \<Rightarrow> world \<Rightarrow> world" where
  "banner a w =
     print_status (replicate 60 CHR ''='') Info
       (print_status (''Output Directory: '' @ output_dir a) Info
         (print_status (''Target Domain: '' @ domain a) Info
           (print_status ''Starting Subdomain Scanner'' Info
             (print_status (replicate 60 CHR ''='') Info w))))"

text \<open>
  Lines 332 to 340: \<open>False\<close> stands for \<open>sys.exit(1)\<close>. A tool is looked for only when
  its stage is not skipped.
\<close>

definition tools_check :: "env \<Rightarrow> args \<Rightarrow> world \<Rightarrow> bool \<times> world" where
  "tools_check e a w =
     (case (if \<not> skip_subfinder a then check_tool_installed e ''subfinder'' w else (True, w)) of
        (False, w1) \<Rightarrow>
          (False,
           print_status
             ''Install with: go install -v github.com/projectdiscovery/subfinder/v2/cmd/subfinder@latest''
             Warning (print_status ''subfinder is not installed or not in PATH'' Error w1))
      | (True, w1) \<Rightarrow>
          (case (if \<not> skip_httpx a then check_tool_installed e ''httpx'' w1 else (True, w1)) of
             (False, w2) \<Rightarrow>
               (False,
                print_status
                  ''Install with: go install -v github.com/projectdiscovery/httpx/cmd/httpx@latest''
                  Warning (print_status ''httpx is not installed or not in PATH'' Error w2))
           | (True, w2) \<Rightarrow> (True, w2)))"

text \<open>Line 360: the stripped non-blank lines of the list file.\<close>

definition load_subdomains :: "string \<Rightarrow> string list" where
  "load_subdomains text = map strip (filter (\<lambda>line. strip line \<noteq> []) (file_lines text))"

text \<open>
  Lines 346 to 363: the subdomains and the list file that the later stages use. All
  matching files lie in the output directory, so sorting their paths sorts their names.
\<close>

definition enumerate_stage ::
    "env \<Rightarrow> args \<Rightarrow> string \<Rightarrow> world \<Rightarrow> (outcome + string list \<times> string) \<times> world" where
  "enumerate_stage e a subdomains_file w =
     (if \<not> skip_subfinder a then
        (let (subdomains, w1) = run_subfinder e (domain a) subdomains_file w;
             w2 = (if subdomains = []
                   then print_status ''No subdomains found. Continuing anyway...'' Warning w1
                   else w1)
         in (Inr (subdomains, subdomains_file), w2))
      else
        (let w1 = print_status ''Skipping subfinder step'' Info w;
             existing_files = glob e (output_dir a) (domain a @ ''_*_subdomains.txt'')
         in if existing_files \<noteq> [] then
              (let found = path_join (output_dir a) (last (sort existing_files));
                   w2 = print_status (''Using existing subdomains file: '' @ found) Info w1
               in case read_text w2 found of
                    Inl ex \<Rightarrow> (Inl (Raised ex), w2)
                  | Inr text \<Rightarrow> (Inr (load_subdomains text, found), w2))
            else (Inl (SysExit 1), print_status ''No existing subdomains file found'' Error w1)))"

text \<open>Lines 366 to 373.\<close>

definition probe_stage ::
    "env \<Rightarrow> args \<Rightarrow> string list \<Rightarrow> string \<Rightarrow> string \<Rightarrow> world \<Rightarrow> (exn + json list) \<times> world" where
  "probe_stage e a subdomains subdomains_file live_hosts_file w =
     (if \<not> skip_httpx a \<and> subdomains \<noteq> [] then
        run_httpx e subdomains_file live_hosts_file
          (print_line subdomains_file (print_line ''subdomain file name'' w))
      else if skip_httpx a then (Inr [], print_status ''Skipping httpx step'' Info w)
      else (Inr [], print_status ''No subdomains to probe with httpx'' Warning w))"

text \<open>Truth value of a decoded value (\<open>if tech:\<close>).\<close>

definition truthy_json :: "json \<Rightarrow> bool" where
  "truthy_json v =
     (case v of
        JNull \<Rightarrow> False
      | JBool b \<Rightarrow> b
      | JInt i \<Rightarrow> i \<noteq> 0
      | JFloat r \<Rightarrow> r \<noteq> ''0.0'' \<and> r \<noteq> ''-0.0''
      | JStr s \<Rightarrow> s \<noteq> []
      | JList xs \<Rightarrow> xs \<noteq> []
      | JDict d \<Rightarrow> d \<noteq> [])"

text \<open>The name of the type of a decoded value, as Python's messages print it.\<close>

definition type_name :: "json \<Rightarrow> string" where
  "type_name v =
     (case v of
        JNull \<Rightarrow> ''NoneType''
      | JBool b \<Rightarrow> ''bool''
      | JInt i \<Rightarrow> ''int''
      | JFloat r \<Rightarrow> ''float''
      | JStr s \<Rightarrow> ''str''
      | JList xs \<Rightarrow> ''list''
      | JDict d \<Rightarrow> ''dict'')"

text \<open>
  \<open>', '.join(tech)\<close>: a list of strings is joined, a string is joined character by
  character, a dict by its keys; the first member of a list that is not a string raises
  \<open>TypeError\<close> with its position and type, and so does a value that is not iterable.
\<close>

fun str_items :: "nat \<Rightarrow> json list \<Rightarrow> (nat \<times> json) + string list" where
  "str_items i [] = Inr []"
| "str_items i (JStr s # vs) =
     (case str_items (Suc i) vs of Inl bad \<Rightarrow> Inl bad | Inr ss \<Rightarrow> Inr (s # ss))"
| "str_items i (v # vs) = Inl (i, v)"

definition join_tech :: "json \<Rightarrow> exn + string" where
  "join_tech tech =
     (case tech of
        JList xs \<Rightarrow>
          (case str_items 0 xs of
             Inr ss \<Rightarrow> Inr (join '', '' ss)
           | Inl (i, v) \<Rightarrow>
               Inl (TypeError (''sequence item '' @ str_nat i @ '': expected str instance, ''
                               @ type_name v @ '' found'')))
      | JStr s \<Rightarrow> Inr (join '', '' (map (\<lambda>c. [c]) s))
      | JDict d \<Rightarrow> Inr (join '', '' (map fst d))
      | _ \<Rightarrow> Inl (TypeError ''can only join an iterable''))"

text \<open>
  Lines 392 to 402, one host: the text written for it, and the exception that stops the
  report, if any. A host that is not a dict writes nothing.
\<close>

definition host_block :: "env \<Rightarrow> json \<Rightarrow> string \<times> exn option" where
  "host_block e host =
     (case host of
        JDict d \<Rightarrow>
          (let url = dict_get d ''url'' (dict_get d ''input'' (JStr ''N/A''));
               status = dict_get d ''status_code'' (JStr ''N/A'');
               title = dict_get d ''title'' (JStr ''N/A'');
               tech = dict_get d ''technologies'' (JList []);
               head = ''URL: '' @ fmt e url @ [LF] @ ''Status: '' @ fmt e status @ [LF]
                      @ ''Title: '' @ fmt e title @ [LF]
           in if truthy_json tech then
                (case join_tech tech of
                   Inl ex \<Rightarrow> (head, Some ex)
                 | Inr joined \<Rightarrow>
                     (head @ ''Technologies: '' @ joined @ [LF] @ replicate 30 CHR ''-'' @ [LF], None))
              else (head @ replicate 30 CHR ''-'' @ [LF], None))
      | _ \<Rightarrow> ([], None))"

fun host_blocks :: "env \<Rightarrow> json list \<Rightarrow> string \<times> exn option" where
  "host_blocks e [] = ([], None)"
| "host_blocks e (host # hosts) =
     (case host_block e host of
        (t, Some ex) \<Rightarrow> (t, Some ex)
      | (t, None) \<Rightarrow> (case host_blocks e hosts of (t', r) \<Rightarrow> (t @ t', r)))"

text \<open>Lines 378 to 402: everything written to the report, and the exception, if any.\<close>

definition report_text ::
    "env \<Rightarrow> args \<Rightarrow> string list \<Rightarrow> json list \<Rightarrow> string \<Rightarrow> string \<Rightarrow> string \<times> exn option" where
  "report_text e a subdomains live_hosts subdomains_file live_hosts_file =
     (let head =
            ''Subdomain Scan Report'' @ [LF]
            @ replicate 50 CHR ''='' @ [LF]
            @ ''Target Domain: '' @ domain a @ [LF]
            @ ''Scan Time: '' @ now_text e @ [LF]
            @ ''Total Subdomains Found: '' @ str_nat (length subdomains) @ [LF]
            @ ''Total Live Hosts Found: '' @ str_nat (length live_hosts) @ [LF]
            @ [LF] @ ''Subdomains File: '' @ subdomains_file @ [LF]
            @ ''Live Hosts File: '' @ live_hosts_file @ [LF]
            @ [LF] @ replicate 50 CHR ''='' @ [LF]
      in if live_hosts \<noteq> [] then
           (case host_blocks e live_hosts of
              (t, r) \<Rightarrow>
                (head @ [LF] @ ''LIVE HOSTS DETAILS:'' @ [LF] @ replicate 50 CHR ''-'' @ [LF] @ t, r))
         else (head, None))"

text \<open>Lines 376 to 407: every exception is caught and reported.\<close>

definition generate_report ::
    "env \<Rightarrow> args \<Rightarrow> string list \<Rightarrow> json list \<Rightarrow> string \<Rightarrow> string \<Rightarrow> string \<Rightarrow> world \<Rightarrow> world" where
  "generate_report e a subdomains live_hosts subdomains_file live_hosts_file report_file w =
     (case report_text e a subdomains live_hosts subdomains_file live_hosts_file of
        (t, r) \<Rightarrow>
          (case write_text report_file t w of
             Inl ex \<Rightarrow> print_status (''Error generating report: '' @ str_exn ex) Error w
           | Inr w1 \<Rightarrow>
               (case r of
                  Some ex \<Rightarrow> print_status (''Error generating report: '' @ str_exn ex) Error w1
                | None \<Rightarrow> print_status (''Report saved to: '' @ report_file) Success w1)))"

text \<open>
  Line 414 reads \<open>args.webhook_url\<close>. The parser defines \<open>domain\<close>, \<open>output_dir\<close>,
  \<open>notify\<close>, \<open>webhook\<close>, \<open>skip_subfinder\<close> and \<open>skip_httpx\<close>; the namespace has no
  attribute \<open>webhook_url\<close>, so reading it raises \<open>AttributeError\<close>.
\<close>

definition args_webhook_url :: "exn + string option" where
  "args_webhook_url =
     Inl (AttributeError (quoted ''Namespace'' @ '' object has no attribute '' @ quoted ''webhook_url''))"

text \<open>Lines 416 to 424: the branch that looks the webhook up in the environment.\<close>

definition notify_from_environment :: "env \<Rightarrow> args \<Rightarrow> nat \<Rightarrow> nat \<Rightarrow> world \<Rightarrow> world" where
  "notify_from_environment e a total_subdomains live_hosts w =
     (let env_var_name = upper (notify a) @ ''_WEBHOOK''
      in case getenv e env_var_name of
           Some webhook_url \<Rightarrow>
             if webhook_url \<noteq> [] then
               snd (send_notification e (domain a) total_subdomains live_hosts webhook_url (notify a)
                      (print_status (''Sending notification via '' @ notify a
                                      @ '' (from environment)...'') Info w))
             else
               print_status (''Either pass --webhook URL or set '' @ env_var_name @ '' in environment'')
                 Info (print_status (''No webhook available for '' @ notify a) Warning w)
         | None \<Rightarrow>
             print_status (''Either pass --webhook URL or set '' @ env_var_name @ '' in environment'')
               Info (print_status (''No webhook available for '' @ notify a) Warning w))"

text \<open>
  Lines 410 to 424. The second condition is evaluated only when the first is false, and
  its right operand only when \<open>notify\<close> is not \<open>none\<close>.
\<close>

definition notify_stage :: "env \<Rightarrow> args \<Rightarrow> nat \<Rightarrow> nat \<Rightarrow> world \<Rightarrow> exn option \<times> world" where
  "notify_stage e a total_subdomains live_hosts w =
     (if notify a \<noteq> ''none'' \<and> webhook a \<noteq> None \<and> webhook a \<noteq> Some [] then
        (None,
         snd (send_notification e (domain a) total_subdomains live_hosts
                (case webhook a of Some u \<Rightarrow> u | None \<Rightarrow> []) (notify a)
                (print_status (''Sending notification via '' @ notify a @ ''...'') Info w)))
      else if notify a \<noteq> ''none'' then
        (case args_webhook_url of
           Inl ex \<Rightarrow> (Some ex, w)
         | Inr v \<Rightarrow>
             if v = None then (None, notify_from_environment e a total_subdomains live_hosts w)
             else (None, w))
      else (None, w))"

text \<open>Lines 426 to 431.\<close>

definition closing :: "args \<Rightarrow> nat \<Rightarrow> nat \<Rightarrow> world \<Rightarrow> world" where
  "closing a total_subdomains live_hosts w =
     print_status (replicate 60 CHR ''='') Info
       (print_status (''Files saved in: '' @ output_dir a) Info
         (print_status (''Live Hosts: '' @ str_nat live_hosts) Info
           (print_status (''Subdomains: '' @ str_nat total_subdomains) Info
             (print_status ''Scan Complete!'' Success
               (print_status (replicate 60 CHR ''='') Info w)))))"

text \<open>Lines 375 to 431: from the report to the end.\<close>

definition finish ::
    "env \<Rightarrow> args \<Rightarrow> string list \<Rightarrow> json list \<Rightarrow> string \<Rightarrow> string \<Rightarrow> string \<Rightarrow> world
       \<Rightarrow> outcome \<times> world" where
  "finish e a subdomains live_hosts subdomains_file live_hosts_file report_file w =
     (let w1 = generate_report e a subdomains live_hosts subdomains_file live_hosts_file report_file w
      in case notify_stage e a (length subdomains) (length live_hosts) w1 of
           (Some ex, w2) \<Rightarrow> (Raised ex, w2)
         | (None, w2) \<Rightarrow> (Returned, closing a (length subdomains) (length live_hosts) w2))"

text \<open>The three file names of lines 320 to 323.\<close>

definition session_file :: "env \<Rightarrow> args \<Rightarrow> string \<Rightarrow> string" where
  "session_file e a suffix = path_join (output_dir a) (domain a @ ''_'' @ now_stamp e @ suffix)"

definition main :: "env \<Rightarrow> args \<Rightarrow> world \<Rightarrow> outcome \<times> world" where
  "main e a w0 =
     (case mkdir_error e of
        Some m \<Rightarrow> (Raised (OSError m), w0)
      | None \<Rightarrow>
          (let subdomains_file = session_file e a ''_subdomains.txt'';
               live_hosts_file = session_file e a ''_live.json'';
               report_file = session_file e a ''_report.txt''
           in case tools_check e a (banner a w0) of
                (False, w1) \<Rightarrow> (SysExit 1, w1)
              | (True, w1) \<Rightarrow>
                  (case enumerate_stage e a subdomains_file w1 of
                     (Inl out, w2) \<Rightarrow> (out, w2)
                   | (Inr (subdomains, used_file), w2) \<Rightarrow>
                       (case probe_stage e a subdomains used_file live_hosts_file w2 of
                          (Inl ex, w3) \<Rightarrow> (Raised ex, w3)
                        | (Inr live_hosts, w3) \<Rightarrow>
                            finish e a subdomains live_hosts used_file live_hosts_file
                              report_file w3))))"

text \<open>
  Lines 433 to 441, without the keyboard interrupt: the exit code of the process. A
  return is code 0, \<open>sys.exit(n)\<close> is code \<open>n\<close>, any exception is reported and gives 1.
\<close>

definition script :: "env \<Rightarrow> args \<Rightarrow> world \<Rightarrow> int \<times> world" where
  "script e a w =
     (case main e a w of
        (Returned, w1) \<Rightarrow> (0, w1)
      | (SysExit n, w1) \<Rightarrow> (n, w1)
      | (Raised ex, w1) \<Rightarrow> (1, print_status (''Unexpected error: '' @ str_exn ex) Error w1))"

section \<open>Notions used to state the properties\<close>

text \<open>The position at which \<open>x\<close> first appears in \<open>xs\<close> (the length of \<open>xs\<close> if it never does).\<close>

definition first_index :: "'a list \<Rightarrow> 'a \<Rightarrow> nat" where
  "first_index xs x = length (takeWhile (\<lambda>y. y \<noteq> x) xs)"

text \<open>The commands of the processes started so far, in order.\<close>

definition execs :: "world \<Rightarrow> string list list" where
  "execs w = concat (map (\<lambda>ev. case ev of Exec cmd \<Rightarrow> [cmd] | _ \<Rightarrow> []) (trace w))"

text \<open>
  A small concrete environment and an empty world, to run the definitions on examples:
  no tool can be started, no line decodes as JSON, no environment variable is set.
\<close>

definition idle_env :: env where
  "idle_env =
     \<lparr>spawn = (\<lambda>cmd fs. (SpawnFailed ''No such file or directory'', fs)),
      json_loads = (\<lambda>s. Inl JSONDecodeError),
      py_str = (\<lambda>j. ''?''),
      getenv = (\<lambda>k. None),
      requests_installed = True,
      requests_post = (\<lambda>u p. Inr 200),
      now_stamp = ''20240101_000000'',
      now_text = ''2024-01-01 00:00:00'',
      elapsed = ''0.00'',
      mkdir_error = None,
      glob = (\<lambda>d p. [])\<rparr>"

definition empty_world :: world where
  "empty_world = \<lparr>files = (\<lambda>p. Absent), trace = []\<rparr>"

text \<open>The same environment, where every process exits with code 0 and prints \<open>out\<close>.\<close>

definition printing_env :: "string \<Rightarrow> env" where
  "printing_env out = idle_env\<lparr>spawn := (\<lambda>cmd fs. (Exited 0 out [], fs))\<rparr>"

text \<open>The same environment, where every process exits with code \<open>rc\<close> and complains.\<close>

definition exit_env :: "int \<Rightarrow> string \<Rightarrow> env" where
  "exit_env rc err = idle_env\<lparr>spawn := (\<lambda>cmd fs. (Exited rc [] err, fs))\<rparr>"

text \<open>
  \<open>json.loads\<close> on the lines of the examples: one line is a JSON object, the others
  (a host name, a URL) are not JSON.
\<close>

definition sample_line :: string where
  \<open>sample_line = ''{"url": "https://a.example.com", "status_code": 200}''\<close>

definition sample_loads :: "string \<Rightarrow> exn + json" where
  "sample_loads s =
     (if s = sample_line
      then Inr (JDict [(''url'', JStr ''https://a.example.com''), (''status_code'', JInt 200)])
      else Inl JSONDecodeError)"

text \<open>A world with a list file of one host and a probe output of one plain URL.\<close>

definition probe_world :: world where
  "probe_world =
     \<lparr>files = (\<lambda>p. if p = ''subs.txt'' then File (''a.example.com'' @ [LF])
                     else if p = ''live.json'' then File (''http://a.example.com'' @ [LF])
                     else Absent),
      trace = []\<rparr>"

text \<open>
  A command line that selects the Slack backend, gives no webhook and skips the probing,
  and an environment where the webhook of this backend is set.
\<close>

definition slack_args :: args where
  "slack_args =
     \<lparr>domain = ''example.com'', output_dir = ''results'', notify = ''slack'', webhook = None,
      skip_subfinder = False, skip_httpx = True\<rparr>"

definition slack_env :: env where
  "slack_env =
     (printing_env (''a.example.com'' @ [LF]))
       \<lparr>getenv := (\<lambda>k. if k = ''SLACK_WEBHOOK'' then Some ''https://hooks.example.com/T0'' else None)\<rparr>"





definition timeout_env :: env where
  "timeout_env =
     idle_env\<lparr>spawn := (\<lambda>cmd fs. if take 1 cmd = [''which''] then (Exited 0 [] [], fs)
                                  else (TimedOut, fs))\<rparr>"

section \<open>Properties\<close>

lemma dedup_loop_append:
  "\<exists>t. dedup_loop xs u (set u) = u @ t \<and> distinct t \<and> set t = set xs - set u
       \<and> sorted_wrt (\<lambda>a b. first_index xs a < first_index xs b) t"
proof (induction xs arbitrary: u)
  case Nil
  then show ?case by simp
next
  case (Cons x xs)
  show ?case
  proof (cases "x \<in> set u")
    case True
    from Cons.IH [of u] obtain t where t: "dedup_loop xs u (set u) = u @ t" "distinct t"
      "set t = set xs - set u" "sorted_wrt (\<lambda>a b. first_index xs a < first_index xs b) t"
      by blast
    have ne: "\<forall>y\<in>set t. y \<noteq> x" using t(3) True by auto
    have "sorted_wrt (\<lambda>a b. first_index (x # xs) a < first_index (x # xs) b) t"
      using t(4) ne by (auto simp: first_index_def elim!: sorted_wrt_mono_rel [rotated])
    with t True show ?thesis by auto
  next
    case False
    from Cons.IH [of "u @ [x]"] obtain t where t: "dedup_loop xs (u @ [x]) (set (u @ [x])) = (u @ [x]) @ t"
      "distinct t" "set t = set xs - set (u @ [x])"
      "sorted_wrt (\<lambda>a b. first_index xs a < first_index xs b) t"
      by blast
    have ne: "\<forall>y\<in>set t. y \<noteq> x" using t(3) by auto
    have s: "sorted_wrt (\<lambda>a b. first_index (x # xs) a < first_index (x # xs) b) t"
      using t(4) ne by (auto simp: first_index_def elim!: sorted_wrt_mono_rel [rotated])
    have "sorted_wrt (\<lambda>a b. first_index (x # xs) a < first_index (x # xs) b) (x # t)"
      using s ne by (auto simp: first_index_def)
    moreover have "dedup_loop (x # xs) u (set u) = u @ (x # t)"
      using t(1) False by simp
    moreover have "distinct (x # t)" using t(2) ne by auto
    moreover have "set (x # t) = set (x # xs) - set u" using t(3) False by auto
    ultimately show ?thesis by blast
  qed
qed

lemma split_on_nonempty: "split_on d s \<noteq> []"
  by (induction s) (auto simp: Let_def)

lemma split_on_no_sep: "l \<in> set (split_on d s) \<Longrightarrow> d \<notin> set l"
proof (induction s arbitrary: l)
  case Nil
  then show ?case by simp
next
  case (Cons c s)
  show ?case
  proof (cases "c = d")
    case True
    with Cons show ?thesis by auto
  next
    case False
    have hd_in: "hd (split_on d s) \<in> set (split_on d s)"
      using split_on_nonempty by simp
    from Cons.prems False have "l = c # hd (split_on d s) \<or> l \<in> set (tl (split_on d s))"
      by (simp add: Let_def)
    then show ?thesis
    proof
      assume "l = c # hd (split_on d s)"
      with False Cons.IH [OF hd_in] show ?thesis by auto
    next
      assume "l \<in> set (tl (split_on d s))"
      then have "l \<in> set (split_on d s)" by (rule list.set_sel(2) [rotated]) (rule split_on_nonempty)
      then show ?thesis by (rule Cons.IH)
    qed
  qed
qed

lemma file_lines_concat:
  "\<forall>s\<in>set u. LF \<notin> set s \<Longrightarrow> file_lines (concat (map (\<lambda>s. s @ [LF]) u)) = map (\<lambda>s. s @ [LF]) u"
proof (induction u)
  case Nil then show ?case by simp
next
  case (Cons a u)
  have "LF \<notin> set a" using Cons.prems by simp
  then have "file_lines (a @ LF # r) = (a @ [LF]) # file_lines r" for r
    by (induction a) auto
  then show ?case using Cons by simp
qed

lemma universal_newlines_no_CR: "CR \<notin> set (universal_newlines s)"
  by (induction s rule: universal_newlines.induct) auto

lemma universal_newlines_id: "CR \<notin> set s \<Longrightarrow> universal_newlines s = s"
  by (induction s rule: universal_newlines.induct) auto

lemma isspace_LF: "isspace LF" by (simp add: isspace_def)
lemma isspace_CR: "isspace CR" by (simp add: isspace_def)

lemma strip_subset: "set (strip s) \<subseteq> set s"
  unfolding strip_def by (metis set_dropWhileD set_rev subsetI)


lemma collect_props:
  "set (collect s) = set (nonblank (split_on LF (strip s)))
   \<and> distinct (collect s)
   \<and> sorted_wrt (\<lambda>a b. first_index (nonblank (split_on LF (strip s))) a
                          < first_index (nonblank (split_on LF (strip s))) b) (collect s)"
  using dedup_loop_append [of "nonblank (split_on LF (strip s))" "[]"]
  by (auto simp: collect_def)

lemma collect_no_LF: "x \<in> set (collect s) \<Longrightarrow> LF \<notin> set x"
  using collect_props [of s] split_on_no_sep [of x LF "strip s"]
  by (auto simp: nonblank_def)

lemma collect_nonblank: "x \<in> set (collect s) \<Longrightarrow> strip x \<noteq> []"
  using collect_props [of s] by (auto simp: nonblank_def)

lemma strip_snoc_space: "isspace c \<Longrightarrow> strip (x @ [c]) = strip x"
proof (cases "\<forall>y\<in>set x. isspace y")
  case True
  assume c: "isspace c"
  from True c have a: "dropWhile isspace (x @ [c]) = []"
    by (induction x) auto
  from True have b: "dropWhile isspace x = []"
    by (induction x) auto
  show ?thesis unfolding strip_def a b by simp
next
  case False
  assume c: "isspace c"
  from False obtain y where "y \<in> set x" "\<not> isspace y" by blast
  then have "dropWhile isspace (x @ [c]) = dropWhile isspace x @ [c]"
    by (rule dropWhile_append1)
  then show ?thesis using c by (simp add: strip_def)
qed

lemma split_on_subset: "l \<in> set (split_on d s) \<Longrightarrow> set l \<subseteq> set s"
proof (induction s arbitrary: l)
  case Nil
  then show ?case by simp
next
  case (Cons c s)
  show ?case
  proof (cases "c = d")
    case True
    with Cons show ?thesis by auto
  next
    case False
    have hd_in: "hd (split_on d s) \<in> set (split_on d s)"
      using split_on_nonempty by simp
    from Cons.prems False have "l = c # hd (split_on d s) \<or> l \<in> set (tl (split_on d s))"
      by (simp add: Let_def)
    then show ?thesis
    proof
      assume "l = c # hd (split_on d s)"
      with Cons.IH [OF hd_in] show ?thesis by auto
    next
      assume "l \<in> set (tl (split_on d s))"
      then have "l \<in> set (split_on d s)" by (rule list.set_sel(2) [rotated]) (rule split_on_nonempty)
      then have "set l \<subseteq> set s" by (rule Cons.IH)
      then show ?thesis by auto
    qed
  qed
qed

lemma collect_subset: "x \<in> set (collect s) \<Longrightarrow> set x \<subseteq> set s"
  using collect_props [of s] split_on_subset [of x LF "strip s"] strip_subset [of s]
  by (auto simp: nonblank_def)

lemma list_file_text_no_CR:
  "\<forall>x\<in>set u. CR \<notin> set x \<Longrightarrow> CR \<notin> set (list_file_text u)"
  by (auto simp: list_file_text_def)

lemma files_print_status [simp]: "files (print_status m l w) = files w"
  by (simp add: print_status_def)

lemma files_print_line [simp]: "files (print_line m w) = files w"
  by (simp add: print_line_def)

lemma files_print_lines [simp]: "files (print_lines ls w) = files w"
  by (induction ls arbitrary: w) auto

lemma files_show_subdomains [simp]: "files (show_subdomains u w) = files w"
  by (simp add: show_subdomains_def Let_def)

lemma run_subfinder_ok:
  assumes run: "spawn e [''subfinder'', ''-d'', tgt, ''-silent''] (files w) = (Exited 0 out err, fs')"
      and wr: "\<forall>m. fs' output_file \<noteq> Blocked m"
  shows "fst (run_subfinder e tgt output_file w) = collect (universal_newlines out)"
    and "files (snd (run_subfinder e tgt output_file w)) output_file
           = File (list_file_text (collect (universal_newlines out)))"
proof -
  have nb: "(case fs' output_file of Blocked m \<Rightarrow> f m | _ \<Rightarrow> g) = g" for f and g :: "exn + world"
    using wr by (cases "fs' output_file") auto
  show "fst (run_subfinder e tgt output_file w) = collect (universal_newlines out)"
    using run
    by (simp add: run_subfinder_def subprocess_run_def Let_def write_text_def nb)
  show "files (snd (run_subfinder e tgt output_file w)) output_file
           = File (list_file_text (collect (universal_newlines out)))"
    using run
    by (simp add: run_subfinder_def subprocess_run_def Let_def write_text_def nb)
qed



lemma dedup_loop_distinct: "distinct (u @ xs) \<Longrightarrow> dedup_loop xs u (set u) = u @ xs"
proof (induction xs arbitrary: u)
  case Nil
  then show ?case by simp
next
  case (Cons x xs)
  from Cons.prems have "x \<notin> set u" and "distinct ((u @ [x]) @ xs)" by auto
  with Cons.IH [of "u @ [x]"] show ?case by simp
qed

lemma load_written:
  assumes "\<forall>x\<in>set u. LF \<notin> set x \<and> strip x \<noteq> []"
  shows "load_subdomains (list_file_text u) = map strip u"
proof -
  have "file_lines (list_file_text u) = map (\<lambda>s. s @ [LF]) u"
    unfolding list_file_text_def using assms by (intro file_lines_concat) simp
  then show ?thesis
    using assms by (simp add: load_subdomains_def strip_snoc_space isspace_LF filter_map o_def
        filter_id_conv)
qed

text \<open>
  C8 (amended). After a successful \<open>run_subfinder\<close>, reading the list file back as
  \<open>main\<close> does (every line stripped, blank lines dropped) gives the returned entries,
  each stripped. When no returned entry has leading or trailing whitespace, loading the
  file and deduplicating again gives the returned sequence itself.
\<close>

theorem reload_roundtrip:
  assumes run: "spawn e [''subfinder'', ''-d'', tgt, ''-silent''] (files w) = (Exited 0 out err, fs')"
      and wr: "\<forall>m. fs' output_file \<noteq> Blocked m"
  shows "let u = fst (run_subfinder e tgt output_file w);
             w' = snd (run_subfinder e tgt output_file w)
         in read_text w' output_file = Inr (list_file_text u)
            \<and> load_subdomains (list_file_text u) = map strip u
            \<and> ((\<forall>x\<in>set u. strip x = x)
                 \<longrightarrow> dedup_loop (load_subdomains (list_file_text u)) [] {} = u)"
proof -
  let ?s = "universal_newlines out"
  let ?u = "collect ?s"
  note ok = run_subfinder_ok [OF run wr]
  have "CR \<notin> set (list_file_text ?u)"
    using collect_subset [of _ ?s] universal_newlines_no_CR [of out]
    by (intro list_file_text_no_CR) blast
  then have rd: "read_text (snd (run_subfinder e tgt output_file w)) output_file
                   = Inr (list_file_text ?u)"
    by (simp add: read_text_def ok universal_newlines_id)
  have ld: "load_subdomains (list_file_text ?u) = map strip ?u"
    by (rule load_written) (simp add: collect_no_LF collect_nonblank)
  have "dedup_loop (load_subdomains (list_file_text ?u)) [] {} = ?u"
    if "\<forall>x\<in>set ?u. strip x = x"
  proof -
    from that have "map strip ?u = ?u" by (simp add: map_idI)
    moreover have "distinct ?u" using collect_props [of ?s] by simp
    ultimately show ?thesis using dedup_loop_distinct [of "[]" ?u] by (simp add: ld)
  qed
  with rd ld show ?thesis by (simp add: ok Let_def)
qed


lemmas run_defs = idle_env_def empty_world_def printing_env_def run_subfinder_def subprocess_run_def Let_def
        write_text_def read_text_def collect_def nonblank_def strip_def isspace_def
        list_file_text_def load_subdomains_def

theorem reload_roundtrip_witness:
  "read_text (snd (run_subfinder (printing_env (''a.example.com'' @ [LF] @ ''b.example.com'' @ [LF]))
                     ''example.com'' ''out.txt'' empty_world)) ''out.txt''
     = Inr (''a.example.com'' @ [LF] @ ''b.example.com'' @ [LF])
   \<and> dedup_loop (load_subdomains (''a.example.com'' @ [LF] @ ''b.example.com'' @ [LF])) [] {}
     = [''a.example.com'', ''b.example.com'']"
  using reload_roundtrip [where e = "printing_env (''a.example.com'' @ [LF] @ ''b.example.com'' @ [LF])"
          and tgt = "''example.com''" and w = empty_world
          and out = "''a.example.com'' @ [LF] @ ''b.example.com'' @ [LF]"
          and err = "[]" and fs' = "\<lambda>p. Absent" and output_file = "''out.txt''"]
  by (simp add: run_defs)

text \<open>
  The claim as stated fails when the tool prints a line with leading whitespace: the
  collector keeps the line as it is, the reload strips it.
\<close>

theorem reload_roundtrip_counterexample:
  "fst (run_subfinder (printing_env (''b.example.com'' @ [LF] @ '' a.example.com'' @ [LF]))
          ''example.com'' ''out.txt'' empty_world)
     = [''b.example.com'', '' a.example.com'']
   \<and> read_text (snd (run_subfinder (printing_env (''b.example.com'' @ [LF] @ '' a.example.com'' @ [LF]))
                     ''example.com'' ''out.txt'' empty_world)) ''out.txt''
     = Inr (''b.example.com'' @ [LF] @ '' a.example.com'' @ [LF])
   \<and> dedup_loop (load_subdomains (''b.example.com'' @ [LF] @ '' a.example.com'' @ [LF])) [] {}
     = [''b.example.com'', ''a.example.com'']"
  by (simp add: run_defs)

text \<open>
  C6. When the list file is missing or holds no line, \<open>run_httpx\<close> returns the empty
  list without raising, starts no process, changes no file, and prints one more status
  line: an error for a missing file, a warning for an empty one.
\<close>

theorem run_httpx_empty_input:
  assumes "files w f = Absent \<or> (files w f = File c \<and> length (file_lines (universal_newlines c)) = 0)"
  shows "fst (run_httpx e f output_file w) = Inr []
         \<and> files (snd (run_httpx e f output_file w)) = files w
         \<and> trace (snd (run_httpx e f output_file w))
             = trace w @ [Status Info (''Probing for live hosts from: '' @ f),
                          (if files w f = Absent
                           then Status Error (''Input file '' @ f @ '' not found '')
                           else Status Warning ''No subdomains to probe'')]"
  using assms
  by (auto simp: run_httpx_def path_exists_def read_text_def print_status_def Let_def)

theorem run_httpx_empty_input_witness:
  "fst (run_httpx idle_env ''missing.txt'' ''live.json''
          (empty_world\<lparr>files := (files empty_world)(''empty.txt'' := File [])\<rparr>)) = Inr []
   \<and> fst (run_httpx idle_env ''empty.txt'' ''live.json''
          (empty_world\<lparr>files := (files empty_world)(''empty.txt'' := File [])\<rparr>)) = Inr []
   \<and> trace (snd (run_httpx idle_env ''empty.txt'' ''live.json''
          (empty_world\<lparr>files := (files empty_world)(''empty.txt'' := File [])\<rparr>)))
       = [Status Info ''Probing for live hosts from: empty.txt'',
          Status Warning ''No subdomains to probe'']"
  using run_httpx_empty_input [where w = "empty_world\<lparr>files := (files empty_world)(''empty.txt'' := File [])\<rparr>"
          and f = "''missing.txt''" and c = "[]" and e = idle_env and output_file = "''live.json''"]
        run_httpx_empty_input [where w = "empty_world\<lparr>files := (files empty_world)(''empty.txt'' := File [])\<rparr>"
          and f = "''empty.txt''" and c = "[]" and e = idle_env and output_file = "''live.json''"]
  by (simp add: empty_world_def)

lemma read_hosts_append:
  "read_hosts e (xs @ ys) acc
     = (case read_hosts e xs acc of Inl ex \<Rightarrow> Inl ex | Inr acc' \<Rightarrow> read_hosts e ys acc')"
  by (induction xs arbitrary: acc) (auto split: sum.splits option.splits)

text \<open>
  C9. A line whose stripped form is not empty, is refused by \<open>json.loads\<close> with
  \<open>JSONDecodeError\<close> and does not start with \<open>http\<close> gives no record: the list built
  from the file is the list built from the file without this line.
\<close>

theorem read_hosts_drops_other_lines:
  assumes "strip l \<noteq> []"
      and "json_loads e (strip l) = Inl JSONDecodeError"
      and "\<not> startswith (strip l) ''http''"
  shows "read_line e l = Inr None
         \<and> read_hosts e (xs @ l # ys) acc = read_hosts e (xs @ ys) acc"
proof -
  have one: "read_line e l = Inr None"
    using assms by (simp add: read_line_def Let_def)
  have "read_hosts e (l # ys) acc' = read_hosts e ys acc'" for acc'
    by (simp add: one)
  then show ?thesis
    using one by (simp add: read_hosts_append [of e xs] split: sum.splits)
qed

theorem read_hosts_drops_other_lines_witness:
  "read_line idle_env (''example.com'' @ [LF]) = Inr None
   \<and> read_hosts idle_env [''http://a.example.com'' @ [LF], ''example.com'' @ [LF]] []
     = Inr [JDict [(''input'', JStr ''http://a.example.com''), (''url'', JStr ''http://a.example.com'')]]"
  using read_hosts_drops_other_lines [where e = idle_env and l = "''example.com'' @ [LF]"
          and xs = "[''http://a.example.com'' @ [LF]]" and ys = "[]" and acc = "[]"]
  by (simp add: idle_env_def read_line_def strip_def isspace_def startswith_def Let_def)

text \<open>
  C3 (amended). A line that \<open>json.loads\<close> refuses with \<open>JSONDecodeError\<close> and whose
  stripped form starts with \<open>http\<close> gives a record with the two fields \<open>input\<close> and
  \<open>url\<close>, both the stripped line, and no other field. An output file of one line that
  decodes and one such line gives exactly two records, the decoded value and this record.
\<close>

theorem read_output_fallback:
  assumes bad: "json_loads e (strip l2) = Inl JSONDecodeError"
      and http: "startswith (strip l2) ''http''"
      and fl: "files w output_file = File t"
      and two: "file_lines (universal_newlines t) = [l1, l2]"
      and l1: "strip l1 \<noteq> []"
      and good: "json_loads e (strip l1) = Inr d"
  shows "read_line e l2 = Inr (Some (JDict [(''input'', JStr (strip l2)), (''url'', JStr (strip l2))]))
         \<and> read_output e output_file w
             = Inr [d, JDict [(''input'', JStr (strip l2)), (''url'', JStr (strip l2))]]
         \<and> (\<forall>k v. k \<noteq> ''input'' \<and> k \<noteq> ''url''
               \<longrightarrow> dict_get [(''input'', JStr (strip l2)), (''url'', JStr (strip l2))] k v = v)"
proof -
  from http have ne: "strip l2 \<noteq> []" by (auto simp: startswith_def)
  have r2: "read_line e l2 = Inr (Some (JDict [(''input'', JStr (strip l2)), (''url'', JStr (strip l2))]))"
    using bad http ne by (simp add: read_line_def Let_def)
  have r1: "read_line e l1 = Inr (Some d)"
    using l1 good by (simp add: read_line_def Let_def)
  have "read_output e output_file w
          = Inr [d, JDict [(''input'', JStr (strip l2)), (''url'', JStr (strip l2))]]"
    using fl two by (simp add: read_output_def path_exists_def read_text_def r1 r2)
  with r2 show ?thesis by (simp add: dict_get_def)
qed

theorem read_output_fallback_witness:
  "read_output (idle_env\<lparr>json_loads := sample_loads\<rparr>) ''live.json''
     (empty_world\<lparr>files := (files empty_world)
        (''live.json'' := File (sample_line @ [LF] @ ''http://b.example.com'' @ [LF]))\<rparr>)
     = Inr [JDict [(''url'', JStr ''https://a.example.com''), (''status_code'', JInt 200)],
            JDict [(''input'', JStr ''http://b.example.com''), (''url'', JStr ''http://b.example.com'')]]"
  using read_output_fallback [where e = "idle_env\<lparr>json_loads := sample_loads\<rparr>"
          and ?l2.0 = "''http://b.example.com'' @ [LF]" and ?l1.0 = "sample_line @ [LF]"
          and w = "empty_world\<lparr>files := (files empty_world)
                     (''live.json'' := File (sample_line @ [LF] @ ''http://b.example.com'' @ [LF]))\<rparr>"
          and output_file = "''live.json''"
          and t = "sample_line @ [LF] @ ''http://b.example.com'' @ [LF]"
          and d = "JDict [(''url'', JStr ''https://a.example.com''), (''status_code'', JInt 200)]"]
  by (simp add: idle_env_def empty_world_def sample_loads_def sample_line_def strip_def isspace_def
        startswith_def)

text \<open>
  The claim as stated fails on a line that is neither JSON nor starts with \<open>http\<close>: it
  gives no record, so that a probe output of this one line gives an empty result.
\<close>

theorem read_output_fallback_counterexample:
  "read_line idle_env (''example.com'' @ [LF]) = Inr None
   \<and> read_output idle_env ''live.json''
        (empty_world\<lparr>files := (files empty_world)(''live.json'' := File (''example.com'' @ [LF]))\<rparr>)
      = Inr []"
  by (simp add: idle_env_def empty_world_def read_output_def read_line_def path_exists_def
        read_text_def strip_def isspace_def startswith_def Let_def)

lemma read_output_files: "files w = files w' \<Longrightarrow> read_output e g w = read_output e g w'"
  by (simp add: read_output_def path_exists_def read_text_def)

lemma files_subprocess_run:
  "files (snd (subprocess_run e cmd w)) = snd (spawn e cmd (files w))"
  by (simp add: subprocess_run_def Let_def split: prod.splits proc_result.splits)



lemma send_try_telegram:
  "\<exists>ex. send_try e msg url ''telegram'' w = (Inl ex, w)"
  by (simp add: send_try_def telegram_token_def Let_def split: option.splits)

text \<open>
  C2, the Telegram half, on the code: whatever the destination identifier, the Telegram
  branch raises before it posts anything (with a slash in the identifier, the
  \<open>NameError\<close> of \<open>telegram_token\<close>), so that \<open>send_notification\<close> returns
  \<open>False\<close>, sends nothing and prints at most one warning.
\<close>

theorem telegram_never_posts:
  "fst (send_notification e d n m url ''telegram'' w) = False
   \<and> files (snd (send_notification e d n m url ''telegram'' w)) = files w
   \<and> (\<exists>msgs. trace (snd (send_notification e d n m url ''telegram'' w))
                 = trace w @ map (Status Warning) msgs)"
proof (cases "url = []")
  case True
  then have "send_notification e d n m url ''telegram'' w = (False, w)"
    by (simp add: send_notification_def)
  moreover have "trace w = trace w @ map (Status Warning) []" by simp
  ultimately show ?thesis by (metis fst_conv snd_conv)
next
  case False
  obtain ex where ex: "send_try e (notification_message e d n m) url ''telegram'' w = (Inl ex, w)"
    using send_try_telegram by blast
  define msg where "msg =
    (case ex of
       ImportError x \<Rightarrow>
         ''Requests library required for notifications. Install with: pip install requests''
     | _ \<Rightarrow> ''Notification error: '' @ str_exn ex)"
  have "send_notification e d n m url ''telegram'' w = (False, print_status msg Warning w)"
    using False ex unfolding msg_def
    by (cases ex) (simp_all add: send_notification_def Let_def)
  moreover have "trace (print_status msg Warning w) = trace w @ map (Status Warning) [msg]"
    by (simp add: print_status_def)
  ultimately show ?thesis by (metis fst_conv snd_conv files_print_status)
qed

theorem telegram_never_posts_witness:
  "send_notification idle_env ''example.com'' 3 1 ''token123/chatID456'' ''telegram'' empty_world
     = (False, empty_world\<lparr>trace :=
          [Status Warning (''Notification error: name '' @ quoted ''telegram_token'' @ '' is not defined'')]\<rparr>)
   \<and> last (split_on CHR ''/'' ''token123/chatID456'') = ''chatID456''"
  using telegram_never_posts [of idle_env "''example.com''" 3 1 "''token123/chatID456''" empty_world]
  by (simp add: send_notification_def send_try_def telegram_token_def import_requests_def
        idle_env_def empty_world_def print_status_def Let_def)


text \<open>
  The other two backends use the identifier as it is: with the \<open>requests\<close> library
  present, the one POST of \<open>send_notification\<close> goes to \<open>webhook_url\<close> itself.
\<close>

lemma print_status_trace: "trace (print_status msg l w) = trace w @ [Status l msg]"
  by (simp add: print_status_def)

lemma send_notification_result:
  assumes "url \<noteq> []" and "send_try e (notification_message e d n m) url p w = (r, w1)"
  shows "\<exists>l msg. trace (snd (send_notification e d n m url p w)) = trace w1 @ [Status l msg]"
proof (cases r)
  case (Inr code)
  with assms show ?thesis
    by (cases "code = 200") (auto simp: send_notification_def Let_def print_status_trace)
next
  case (Inl ex)
  with assms show ?thesis
    by (cases ex) (auto simp: send_notification_def Let_def print_status_trace)
qed

lemma webhook_used_verbatim:
  assumes inst: "requests_installed e" and url: "url \<noteq> []" and p: "p = ''discord'' \<or> p = ''slack''"
  shows "\<exists>payload l msg. trace (snd (send_notification e d n m url p w))
           = trace w @ [Post url payload, Status l msg]"
proof -
  from inst p obtain payload r where
    st: "send_try e (notification_message e d n m) url p w
           = (r, w\<lparr>trace := trace w @ [Post url payload]\<rparr>)"
    by (auto simp: send_try_def import_requests_def http_post_def)
  from send_notification_result [OF url st] show ?thesis by auto
qed

text \<open>
  C4, on the code: with a backend selected and no webhook on the command line (or an
  empty one), the notification stage raises the \<open>AttributeError\<close> of
  \<open>args.webhook_url\<close> before it looks at the environment, so that everything after the
  report ends with this exception.
\<close>

theorem missing_webhook_raises:
  assumes "notify a \<noteq> ''none''" and "webhook a = None \<or> webhook a = Some []"
  shows "notify_stage e a n m w
           = (Some (AttributeError (quoted ''Namespace'' @ '' object has no attribute ''
                                     @ quoted ''webhook_url'')), w)
         \<and> (\<exists>w'. finish e a subs hosts f g r w
                    = (Raised (AttributeError (quoted ''Namespace'' @ '' object has no attribute ''
                                                @ quoted ''webhook_url'')), w'))"
proof -
  have ns: "notify_stage e a n m w
           = (Some (AttributeError (quoted ''Namespace'' @ '' object has no attribute ''
                                     @ quoted ''webhook_url'')), w)" for n m w
    using assms by (auto simp: notify_stage_def args_webhook_url_def)
  then show ?thesis by (simp add: finish_def Let_def)
qed


lemmas main_defs = script_def main_def session_file_def path_join_def banner_def tools_check_def
  check_tool_installed_def subprocess_run_def enumerate_stage_def probe_stage_def
  run_subfinder_def collect_def nonblank_def list_file_text_def write_text_def
  show_subdomains_def numbered_def

text \<open>
  The failing run: the Slack backend with no webhook on the command line and
  \<open>SLACK_WEBHOOK\<close> set in the environment ends with exit code 1.
\<close>

theorem missing_webhook_raises_witness:
  "upper (notify slack_args) @ ''_WEBHOOK'' = ''SLACK_WEBHOOK''
   \<and> getenv slack_env ''SLACK_WEBHOOK'' = Some ''https://hooks.example.com/T0''
   \<and> fst (script slack_env slack_args empty_world) = 1"
proof -
  have up: "upper (notify slack_args) @ ''_WEBHOOK'' = ''SLACK_WEBHOOK''"
    by code_simp
  have ge: "getenv slack_env ''SLACK_WEBHOOK'' = Some ''https://hooks.example.com/T0''"
    by (simp add: slack_env_def)
  have a: "notify slack_args \<noteq> ''none''" "webhook slack_args = None \<or> webhook slack_args = Some []"
    by (simp_all add: slack_args_def)
  have "fst (script slack_env slack_args empty_world) = 1"
    using missing_webhook_raises [OF a, of slack_env]
    by (simp add: main_defs finish_def generate_report_def report_text_def slack_env_def
          slack_args_def printing_env_def idle_env_def empty_world_def strip_def isspace_def
          Let_def print_status_def print_line_def str_nat.simps)
  with up ge show ?thesis by simp
qed

lemma execs_print_status [simp]: "execs (print_status m l w) = execs w"
  by (simp add: execs_def print_status_def)

lemma execs_print_line [simp]: "execs (print_line m w) = execs w"
  by (simp add: execs_def print_line_def)


lemma execs_banner [simp]: "execs (banner a w) = execs w"
  by (simp add: banner_def)


















lemma run_subfinder_result:
  assumes "spawn e [''subfinder'', ''-d'', tgt, ''-silent''] (files w) = (r, fs')"
  shows "fst (run_subfinder e tgt f w)
           = (case r of
                Exited rc out err \<Rightarrow>
                  if rc = 0 \<and> (\<forall>m. fs' f \<noteq> Blocked m) then collect (universal_newlines out) else []
              | TimedOut \<Rightarrow> []
              | SpawnFailed m \<Rightarrow> [])"
proof (cases r)
  case (Exited rc out err)
  show ?thesis
  proof (cases "rc = 0 \<and> (\<forall>m. fs' f \<noteq> Blocked m)")
    case True
    with assms Exited run_subfinder_ok(1) [of e tgt w out err fs' f] show ?thesis by simp
  next
    case False
    with assms Exited show ?thesis
      by (auto simp: run_subfinder_def subprocess_run_def Let_def write_text_def)
  qed
next
  case TimedOut
  with assms show ?thesis by (simp add: run_subfinder_def subprocess_run_def Let_def)
next
  case (SpawnFailed m)
  with assms show ?thesis by (simp add: run_subfinder_def subprocess_run_def Let_def)
qed

lemma show_hosts_raises: "fst (show_hosts e i hs w) = fst (show_hosts e i hs w')"
proof (induction hs arbitrary: i w w')
  case Nil
  then show ?case by simp
next
  case (Cons h hs)
  show ?case
  proof (cases h)
    case (JDict d)
    show ?thesis
    proof (cases "slice_to 50 (dict_get d ''title'' (JStr ''N/A''))")
      case (Inl ex)
      with JDict show ?thesis by (simp add: Let_def)
    next
      case (Inr title)
      with JDict Cons.IH show ?thesis by (simp add: Let_def)
    qed
  qed (use Cons.IH in simp_all)
qed

lemma show_live_hosts_raises: "fst (show_live_hosts e hs w) = fst (show_live_hosts e hs w')"
proof -
  have "fst (show_hosts e 1 (take 5 hs) (print_status ''Live hosts found:'' Info w))
          = fst (show_hosts e 1 (take 5 hs) (print_status ''Live hosts found:'' Info w'))"
    by (rule show_hosts_raises)
  then show ?thesis
    by (auto simp: show_live_hosts_def split: prod.splits option.splits)
qed

lemma show_hosts_trace: "set (trace w) \<subseteq> set (trace (snd (show_hosts e i hs w)))"
proof (induction hs arbitrary: i w)
  case Nil
  then show ?case by simp
next
  case (Cons h hs)
  have step: "set (trace w) \<subseteq> set (trace (snd (show_hosts e i' hs (print_line s w))))" for i' s
    using Cons.IH [of "print_line s w" i'] by (auto simp: print_line_def)
  show ?case
  proof (cases h)
    case (JDict d)
    show ?thesis
    proof (cases "slice_to 50 (dict_get d ''title'' (JStr ''N/A''))")
      case (Inl ex)
      with JDict show ?thesis by (simp add: Let_def)
    next
      case (Inr title)
      with JDict step show ?thesis by (simp add: Let_def)
    qed
  qed (use step in simp_all)
qed

lemma show_live_hosts_trace: "set (trace w) \<subseteq> set (trace (snd (show_live_hosts e hs w)))"
proof -
  have "set (trace w) \<subseteq> set (trace (snd (show_hosts e 1 (take 5 hs) (print_status ''Live hosts found:'' Info w))))"
    using show_hosts_trace [of "print_status ''Live hosts found:'' Info w" e 1 "take 5 hs"]
    by (auto simp: print_status_def)
  then show ?thesis
    by (auto simp: show_live_hosts_def print_line_def split: prod.splits option.splits)
qed


lemma read_output_print_status [simp]:
  "read_output e g (print_status m l w) = read_output e g w"
  by (rule read_output_files) simp

lemma show_live_hosts_fst:
  "show_live_hosts e hs w' = (x, w7) \<Longrightarrow> fst (show_live_hosts e hs w) = x"
  using show_live_hosts_raises [of e hs w w'] by simp

lemma show_live_hosts_keeps:
  "show_live_hosts e hs w' = (x, w7) \<Longrightarrow> ev \<in> set (trace w') \<Longrightarrow> ev \<in> set (trace w7)"
  using show_live_hosts_trace [of w' e hs] by auto

lemma httpx_try_result:
  assumes sp: "spawn e (httpx_cmd f g) (files w) = (r, fs')"
  shows "fst (httpx_try e f g n w)
           = (case r of
                Exited rc out err \<Rightarrow>
                  (case read_output e g (w\<lparr>files := fs'\<rparr>) of
                     Inl ex \<Rightarrow> Inl ex
                   | Inr hosts \<Rightarrow>
                       (case fst (show_live_hosts e hosts w) of
                          Some ex \<Rightarrow> Inl ex
                        | None \<Rightarrow> Inr hosts))
              | TimedOut \<Rightarrow> Inl TimeoutExpired
              | SpawnFailed m \<Rightarrow> Inl (OSError m))"
    and "r = Exited rc out err \<Longrightarrow> rc \<noteq> 0 \<Longrightarrow> rc \<noteq> 1 \<Longrightarrow>
         Status Error (''Httpx failed (code '' @ str_int rc @ ''): '' @ take 200 (universal_newlines err))
           \<in> set (trace (snd (httpx_try e f g n w)))"
proof -
  let ?w3 = "print_status (''Command: '' @ join '' '' (httpx_cmd f g)) Info
               (print_status (''Running httpx on '' @ str_nat n @ '' subdomains'') Info w)"
  obtain q w4 where sr: "subprocess_run e (httpx_cmd f g) ?w3 = (q, w4)"
    by (cases "subprocess_run e (httpx_cmd f g) ?w3")
  have f4: "files w4 = fs'"
    using files_subprocess_run [of e "httpx_cmd f g" ?w3] sr sp by simp
  have r4 [simp]: "read_output e g w4 = read_output e g (w\<lparr>files := fs'\<rparr>)"
    by (rule read_output_files) (simp add: f4)
  have q: "q = (case r of Exited rc out err \<Rightarrow>
                   Inr \<lparr>returncode = rc, stdout = universal_newlines out, stderr = universal_newlines err\<rparr>
                | TimedOut \<Rightarrow> Inl TimeoutExpired | SpawnFailed m \<Rightarrow> Inl (OSError m))"
    using sr sp by (auto simp: subprocess_run_def Let_def split: proc_result.splits)
  note sr' = sr [unfolded q]
  show "fst (httpx_try e f g n w)
           = (case r of
                Exited rc out err \<Rightarrow>
                  (case read_output e g (w\<lparr>files := fs'\<rparr>) of
                     Inl ex \<Rightarrow> Inl ex
                   | Inr hosts \<Rightarrow>
                       (case fst (show_live_hosts e hosts w) of
                          Some ex \<Rightarrow> Inl ex
                        | None \<Rightarrow> Inr hosts))
              | TimedOut \<Rightarrow> Inl TimeoutExpired
              | SpawnFailed m \<Rightarrow> Inl (OSError m))"
    using sr'
    by (cases r)
       (auto simp: httpx_try_def Let_def split: sum.splits prod.splits option.splits
             dest: show_live_hosts_fst [where w = w])
  show "Status Error (''Httpx failed (code '' @ str_int rc @ ''): '' @ take 200 (universal_newlines err))
           \<in> set (trace (snd (httpx_try e f g n w)))"
    if r: "r = Exited rc out err" and rc: "rc \<noteq> 0" "rc \<noteq> 1"
  proof -
    let ?ev = "Status Error (''Httpx failed (code '' @ str_int rc @ ''): '' @ take 200 (universal_newlines err))"
    show ?thesis
      using sr' r rc
      by (auto simp: httpx_try_def Let_def print_status_trace split: sum.splits prod.splits option.splits
               elim: show_live_hosts_keeps)
  qed
qed

lemma run_httpx_unfold:
  assumes "files w f = File c" and "length (file_lines (universal_newlines c)) \<noteq> 0"
  shows "fst (run_httpx e f g w)
           = (case fst (httpx_try e f g (length (file_lines (universal_newlines c)))
                          (print_status (''Probing for live hosts from: '' @ f) Info w)) of
                Inl ex \<Rightarrow> Inr []
              | Inr hosts \<Rightarrow> Inr hosts)"
proof (cases "httpx_try e f g (length (file_lines (universal_newlines c)))
                (print_status (''Probing for live hosts from: '' @ f) Info w)")
  case (Pair r w2)
  with assms show ?thesis
    by (cases r) (simp_all add: run_httpx_def path_exists_def read_text_def Let_def)
qed


lemma run_httpx_trace:
  assumes "files w f = File c" and "length (file_lines (universal_newlines c)) \<noteq> 0"
      and "ev \<in> set (trace (snd (httpx_try e f g (length (file_lines (universal_newlines c)))
                          (print_status (''Probing for live hosts from: '' @ f) Info w))))"
  shows "ev \<in> set (trace (snd (run_httpx e f g w)))"
proof (cases "httpx_try e f g (length (file_lines (universal_newlines c)))
                (print_status (''Probing for live hosts from: '' @ f) Info w)")
  case (Pair r w2)
  with assms show ?thesis
    by (cases r)
       (auto simp: run_httpx_def path_exists_def read_text_def Let_def print_status_trace)
qed

lemma run_httpx_result:
  assumes fl: "files w f = File c" and ne: "file_lines (universal_newlines c) \<noteq> []"
      and sp: "spawn e (httpx_cmd f g) (files w) = (r, fs')"
  shows "fst (run_httpx e f g w)
           = (case r of
                Exited rc out err \<Rightarrow>
                  (case read_output e g (w\<lparr>files := fs'\<rparr>) of
                     Inl ex \<Rightarrow> Inr []
                   | Inr hosts \<Rightarrow>
                       (case fst (show_live_hosts e hosts w) of
                          Some ex \<Rightarrow> Inr []
                        | None \<Rightarrow> Inr hosts))
              | TimedOut \<Rightarrow> Inr []
              | SpawnFailed m \<Rightarrow> Inr [])"
    and "r = Exited rc out err \<Longrightarrow> rc \<noteq> 0 \<Longrightarrow> rc \<noteq> 1 \<Longrightarrow>
         Status Error (''Httpx failed (code '' @ str_int rc @ ''): '' @ take 200 (universal_newlines err))
           \<in> set (trace (snd (run_httpx e f g w)))"
proof -
  let ?w1 = "print_status (''Probing for live hosts from: '' @ f) Info w"
  let ?n = "length (file_lines (universal_newlines c))"
  from ne have n0: "?n \<noteq> 0" by simp
  have sp1: "spawn e (httpx_cmd f g) (files ?w1) = (r, fs')" using sp by simp
  have ro: "read_output e g (?w1\<lparr>files := fs'\<rparr>) = read_output e g (w\<lparr>files := fs'\<rparr>)"
    by (rule read_output_files) simp
  have sh: "fst (show_live_hosts e hosts ?w1) = fst (show_live_hosts e hosts w)" for hosts
    by (rule show_live_hosts_raises)
  note tr = httpx_try_result [OF sp1, where n = ?n, unfolded ro sh]
  show "fst (run_httpx e f g w)
           = (case r of
                Exited rc out err \<Rightarrow>
                  (case read_output e g (w\<lparr>files := fs'\<rparr>) of
                     Inl ex \<Rightarrow> Inr []
                   | Inr hosts \<Rightarrow>
                       (case fst (show_live_hosts e hosts w) of
                          Some ex \<Rightarrow> Inr []
                        | None \<Rightarrow> Inr hosts))
              | TimedOut \<Rightarrow> Inr []
              | SpawnFailed m \<Rightarrow> Inr [])"
    unfolding run_httpx_unfold [OF fl n0] tr(1)
    by (simp split: proc_result.splits sum.splits option.splits)
  show "Status Error (''Httpx failed (code '' @ str_int rc @ ''): '' @ take 200 (universal_newlines err))
           \<in> set (trace (snd (run_httpx e f g w)))"
    if "r = Exited rc out err" "rc \<noteq> 0" "rc \<noteq> 1"
    using run_httpx_trace [OF fl n0] tr(2) [OF that] by blast
qed

lemma run_httpx_returns:
  assumes "\<forall>m. files w f \<noteq> Blocked m"
  shows "\<exists>hosts. fst (run_httpx e f g w) = Inr hosts"
proof (cases "files w f")
  case Absent
  then show ?thesis by (simp add: run_httpx_def path_exists_def Let_def)
next
  case (Blocked m)
  with assms show ?thesis by simp
next
  case (File c)
  show ?thesis
  proof (cases "file_lines (universal_newlines c) = []")
    case True
    with File show ?thesis by (simp add: run_httpx_def path_exists_def read_text_def Let_def)
  next
    case False
    obtain r fs' where "spawn e (httpx_cmd f g) (files w) = (r, fs')"
      by (cases "spawn e (httpx_cmd f g) (files w)")
    from run_httpx_result(1) [OF File False this] show ?thesis
      by (simp split: proc_result.splits sum.splits option.splits)
  qed
qed

text \<open>
  C10 (amended). \<open>run_subfinder\<close> always returns a list: the deduplicated lines when the
  tool exits with code 0 and the list file can be written, the empty list after a
  timeout, a failure to start the tool, another exit code or a failure to write.
  \<open>run_httpx\<close> returns a list without raising whenever its list file is missing or can
  be read. When the file has lines, its result is the empty list after a timeout or a
  failure to start the tool; after the tool has exited, with whatever exit code, it is
  the list of the records read from the output file, or the empty list when reading the
  file or displaying the summary raises. An exit code other than 0 and 1 only adds an
  error line.
\<close>

theorem stage_functions_catch:
  "(spawn e [''subfinder'', ''-d'', tgt, ''-silent''] (files w) = (r, fs') \<longrightarrow>
      fst (run_subfinder e tgt f w)
        = (case r of
             Exited rc out err \<Rightarrow>
               if rc = 0 \<and> (\<forall>m. fs' f \<noteq> Blocked m) then collect (universal_newlines out) else []
           | TimedOut \<Rightarrow> []
           | SpawnFailed m \<Rightarrow> []))
   \<and> ((\<forall>m. files w f \<noteq> Blocked m) \<longrightarrow> (\<exists>hosts. fst (run_httpx e f g w) = Inr hosts))
   \<and> (files w f = File c \<and> file_lines (universal_newlines c) \<noteq> []
        \<and> spawn e (httpx_cmd f g) (files w) = (r', fs'') \<longrightarrow>
      fst (run_httpx e f g w)
        = (case r' of
             Exited rc out err \<Rightarrow>
               (case read_output e g (w\<lparr>files := fs''\<rparr>) of
                  Inl ex \<Rightarrow> Inr []
                | Inr hosts \<Rightarrow>
                    (case fst (show_live_hosts e hosts w) of
                       Some ex \<Rightarrow> Inr []
                     | None \<Rightarrow> Inr hosts))
           | TimedOut \<Rightarrow> Inr []
           | SpawnFailed m \<Rightarrow> Inr [])
      \<and> (\<forall>rc out err. r' = Exited rc out err \<and> rc \<noteq> 0 \<and> rc \<noteq> 1 \<longrightarrow>
            Status Error (''Httpx failed (code '' @ str_int rc @ ''): '' @ take 200 (universal_newlines err))
              \<in> set (trace (snd (run_httpx e f g w)))))"
proof (intro conjI impI allI)
  assume "spawn e [''subfinder'', ''-d'', tgt, ''-silent''] (files w) = (r, fs')"
  then show "fst (run_subfinder e tgt f w)
        = (case r of
             Exited rc out err \<Rightarrow>
               if rc = 0 \<and> (\<forall>m. fs' f \<noteq> Blocked m) then collect (universal_newlines out) else []
           | TimedOut \<Rightarrow> []
           | SpawnFailed m \<Rightarrow> [])"
    by (rule run_subfinder_result)
next
  assume "\<forall>m. files w f \<noteq> Blocked m"
  then show "\<exists>hosts. fst (run_httpx e f g w) = Inr hosts"
    by (rule run_httpx_returns)
next
  assume h: "files w f = File c \<and> file_lines (universal_newlines c) \<noteq> []
        \<and> spawn e (httpx_cmd f g) (files w) = (r', fs'')"
  then have a: "files w f = File c" "file_lines (universal_newlines c) \<noteq> []"
    "spawn e (httpx_cmd f g) (files w) = (r', fs'')" by simp_all
  show "fst (run_httpx e f g w)
        = (case r' of
             Exited rc out err \<Rightarrow>
               (case read_output e g (w\<lparr>files := fs''\<rparr>) of
                  Inl ex \<Rightarrow> Inr []
                | Inr hosts \<Rightarrow>
                    (case fst (show_live_hosts e hosts w) of
                       Some ex \<Rightarrow> Inr []
                     | None \<Rightarrow> Inr hosts))
           | TimedOut \<Rightarrow> Inr []
           | SpawnFailed m \<Rightarrow> Inr [])"
    by (rule run_httpx_result(1) [OF a])
next
  fix rc out err
  assume h: "files w f = File c \<and> file_lines (universal_newlines c) \<noteq> []
        \<and> spawn e (httpx_cmd f g) (files w) = (r', fs'')"
    and r: "r' = Exited rc out err \<and> rc \<noteq> 0 \<and> rc \<noteq> 1"
  from h have a: "files w f = File c" "file_lines (universal_newlines c) \<noteq> []"
    "spawn e (httpx_cmd f g) (files w) = (r', fs'')" by simp_all
  from r have b: "r' = Exited rc out err" "rc \<noteq> 0" "rc \<noteq> 1" by simp_all
  show "Status Error (''Httpx failed (code '' @ str_int rc @ ''): '' @ take 200 (universal_newlines err))
              \<in> set (trace (snd (run_httpx e f g w)))"
    by (rule run_httpx_result(2) [OF a b])
qed

lemmas probe_defs = idle_env_def exit_env_def probe_world_def run_httpx_def httpx_try_def httpx_cmd_def
  subprocess_run_def read_output_def read_line_def path_exists_def read_text_def
  show_live_hosts_def dict_get_def fmt_def print_status_def print_line_def
  strip_def isspace_def startswith_def Let_def


theorem stage_functions_catch_witness:
  "fst (run_subfinder timeout_env ''example.com'' ''subs.txt'' probe_world) = []
   \<and> fst (run_httpx timeout_env ''subs.txt'' ''live.json'' probe_world) = Inr []
   \<and> fst (run_httpx (exit_env 2 ''boom'') ''subs.txt'' ''live.json'' probe_world)
       = Inr [JDict [(''input'', JStr ''http://a.example.com''), (''url'', JStr ''http://a.example.com'')]]
   \<and> Status Error ''Httpx failed (code 2): boom''
       \<in> set (trace (snd (run_httpx (exit_env 2 ''boom'') ''subs.txt'' ''live.json'' probe_world)))"
proof -
  have s2: "str_int 2 = ''2''" by code_simp
  have fl: "files probe_world ''subs.txt'' = File (''a.example.com'' @ [LF])"
    by (simp add: probe_world_def)
  have ne: "file_lines (universal_newlines (''a.example.com'' @ [LF])) \<noteq> []" by simp
  have t1: "spawn timeout_env [''subfinder'', ''-d'', ''example.com'', ''-silent''] (files probe_world)
              = (TimedOut, files probe_world)"
    by (simp add: timeout_env_def idle_env_def)
  have t2: "spawn timeout_env (httpx_cmd ''subs.txt'' ''live.json'') (files probe_world)
              = (TimedOut, files probe_world)"
    by (simp add: timeout_env_def idle_env_def httpx_cmd_def)
  have x2: "spawn (exit_env 2 ''boom'') (httpx_cmd ''subs.txt'' ''live.json'') (files probe_world)
              = (Exited 2 [] ''boom'', files probe_world)"
    by (simp add: exit_env_def idle_env_def)
  have ro: "read_output (exit_env 2 ''boom'') ''live.json'' (probe_world\<lparr>files := files probe_world\<rparr>)
              = Inr [JDict [(''input'', JStr ''http://a.example.com''), (''url'', JStr ''http://a.example.com'')]]"
    by (simp add: probe_defs)
  have sh: "fst (show_live_hosts (exit_env 2 ''boom'')
                   [JDict [(''input'', JStr ''http://a.example.com''), (''url'', JStr ''http://a.example.com'')]]
                   probe_world) = None"
    by (simp add: probe_defs)
  from stage_functions_catch [where e = timeout_env and tgt = "''example.com''" and w = probe_world
          and f = "''subs.txt''" and g = "''live.json''" and r = TimedOut and fs' = "files probe_world"
          and c = "''a.example.com'' @ [LF]" and r' = TimedOut and fs'' = "files probe_world"]
  have a: "fst (run_subfinder timeout_env ''example.com'' ''subs.txt'' probe_world) = []
           \<and> fst (run_httpx timeout_env ''subs.txt'' ''live.json'' probe_world) = Inr []"
    using fl ne t1 t2 by simp
  from stage_functions_catch [where e = "exit_env 2 ''boom''" and w = probe_world
          and f = "''subs.txt''" and g = "''live.json''"
          and c = "''a.example.com'' @ [LF]" and r' = "Exited 2 [] ''boom''" and fs'' = "files probe_world"]
  have b: "fst (run_httpx (exit_env 2 ''boom'') ''subs.txt'' ''live.json'' probe_world)
       = Inr [JDict [(''input'', JStr ''http://a.example.com''), (''url'', JStr ''http://a.example.com'')]]
   \<and> Status Error ''Httpx failed (code 2): boom''
       \<in> set (trace (snd (run_httpx (exit_env 2 ''boom'') ''subs.txt'' ''live.json'' probe_world)))"
    using fl ne x2 ro sh by (simp add: s2)
  from a b show ?thesis by simp
qed

text \<open>
  The claim as stated fails for a failure that the tool reports: with exit code 2 and a
  probe output of one URL, \<open>run_httpx\<close> returns the record read from the file, not the
  empty list.
\<close>

theorem stage_functions_catch_counterexample:
  "fst (run_httpx (exit_env 2 ''boom'') ''subs.txt'' ''live.json'' probe_world)
     = Inr [JDict [(''input'', JStr ''http://a.example.com''), (''url'', JStr ''http://a.example.com'')]]"
  by (simp add: probe_defs)

end
